theory Spec2Isabelle
  imports Complex_Main
begin

section \<open>Gerchberg-Saxton phaseless retrieval: the notebook's functions\<close>

text \<open>
  The development embeds the code cells of \<^verbatim>\<open>Gerchberg-Saxton.ipynb\<close>. Every exception
  the array operations can raise on arrays of the wrong length is a value
  \<open>Inl ValueError\<close>.

  A floating-point number is the real number it denotes. The retrieval loop is read in
  exact arithmetic: its only comparison is between the residuals of a vector and of its
  negation, which agree under any rounding that treats the two alike. Two results of the
  code are decided by rounded quantities that the exact ones do not determine: the
  truncated product \<^verbatim>\<open>int(input_dimension * redundancy)\<close> and the strict comparison
  of two computed norms in the main routine. There the rounded product, sum and norm are
  parameters, as the machine computes them.
\<close>

subsection \<open>Results and arrays\<close>

datatype error = ValueError

type_synonym 'a result = "error + 'a"

definition bindR :: "'a result \<Rightarrow> ('a \<Rightarrow> 'b result) \<Rightarrow> 'b result" where
  "bindR r f = (case r of Inl e \<Rightarrow> Inl e | Inr v \<Rightarrow> f v)"

text \<open>
  A one-dimensional array is a list. A two-dimensional array is its shape and its entries
  by row and column index; entries outside the shape are never read.
\<close>

record ndarray2 =
  shape0 :: nat
  shape1 :: nat
  entry :: "nat \<Rightarrow> nat \<Rightarrow> real"

definition of_rows :: "nat \<Rightarrow> real list list \<Rightarrow> ndarray2" where
  "of_rows n rs = \<lparr>shape0 = length rs, shape1 = n, entry = (\<lambda>i j. rs ! i ! j)\<rparr>"

text \<open>\<^verbatim>\<open>A.T\<close>\<close>

definition transpose_arr :: "ndarray2 \<Rightarrow> ndarray2" where
  "transpose_arr A = \<lparr>shape0 = shape1 A, shape1 = shape0 A, entry = (\<lambda>i j. entry A j i)\<rparr>"

text \<open>
  \<^verbatim>\<open>A @ x\<close> and \<^verbatim>\<open>A.dot(x)\<close> for a two-dimensional \<open>A\<close> and a one-dimensional \<open>x\<close>,
  real or complex: the lengths must agree, otherwise the library raises.
\<close>

definition matvec :: "ndarray2 \<Rightarrow> 'a::real_normed_vector list \<Rightarrow> 'a list result" where
  "matvec A x =
     (if length x = shape1 A
      then Inr (map (\<lambda>i. \<Sum>j<shape1 A. entry A i j *\<^sub>R x ! j) [0..<shape0 A])
      else Inl ValueError)"

text \<open>\<^verbatim>\<open>A @ B\<close> for two-dimensional arrays.\<close>

definition matmul :: "ndarray2 \<Rightarrow> ndarray2 \<Rightarrow> ndarray2 result" where
  "matmul A B =
     (if shape1 A = shape0 B
      then Inr \<lparr>shape0 = shape0 A, shape1 = shape1 B,
                entry = (\<lambda>i j. \<Sum>k<shape1 A. entry A i k * entry B k j)\<rparr>
      else Inl ValueError)"

definition eye :: "nat \<Rightarrow> ndarray2" where
  "eye n = \<lparr>shape0 = n, shape1 = n, entry = (\<lambda>i j. if i = j then 1 else 0)\<rparr>"

text \<open>Two arrays are equal as arrays: same shape, same entries inside the shape.\<close>

definition array_equal :: "ndarray2 \<Rightarrow> ndarray2 \<Rightarrow> bool" where
  "array_equal A B \<longleftrightarrow>
     shape0 A = shape0 B \<and> shape1 A = shape1 B \<and>
     (\<forall>i\<in>{..<shape0 A}. \<forall>j\<in>{..<shape1 A}. entry A i j = entry B i j)"

text \<open>
  An elementwise binary operation on one-dimensional arrays, with the library's
  broadcasting: equal lengths combine pointwise, a length-one array is stretched,
  anything else raises.
\<close>

definition broadcast2 :: "('a \<Rightarrow> 'b \<Rightarrow> 'c) \<Rightarrow> 'a list \<Rightarrow> 'b list \<Rightarrow> 'c list result" where
  "broadcast2 f xs ys =
     (if length xs = length ys then Inr (map2 f xs ys)
      else if length xs = 1 then Inr (map (f (hd xs)) ys)
      else if length ys = 1 then Inr (map (\<lambda>x. f x (hd ys)) xs)
      else Inl ValueError)"

text \<open>\<^verbatim>\<open>Q[:, :n]\<close> with Python's slice bounds: a negative stop counts from the end.\<close>

definition slice_cols :: "ndarray2 \<Rightarrow> int \<Rightarrow> ndarray2" where
  "slice_cols Q n =
     (let c = int (shape1 Q);
          stop = (if n < 0 then max (c + n) 0 else min n c)
      in \<lparr>shape0 = shape0 Q, shape1 = nat stop, entry = entry Q\<rparr>)"

text \<open>\<^verbatim>\<open>np.linalg.norm\<close> of a one-dimensional real array, in exact arithmetic.\<close>

definition norm2 :: "real list \<Rightarrow> real" where
  "norm2 v = sqrt (\<Sum>x\<leftarrow>v. x\<^sup>2)"

text \<open>
  \<^verbatim>\<open>np.angle\<close> of a real number \<open>t\<close> is \<open>arctan2(0, t)\<close>: \<open>\<pi>\<close> for a negative number
  and \<open>0\<close> otherwise.
\<close>

definition angle :: "real \<Rightarrow> real" where
  "angle t = (if t < 0 then pi else 0)"

text \<open>\<^verbatim>\<open>int(x)\<close> of a Python float: truncation toward zero.\<close>

definition py_int :: "real \<Rightarrow> int" where
  "py_int x = (if 0 \<le> x then \<lfloor>x\<rfloor> else \<lceil>x\<rceil>)"

subsection \<open>The library and the machine arithmetic, as parameters\<close>

text \<open>
  The bit generator and the QR factorisation belong to the numerical library, not to the
  notebook. They are parameters: \<open>bit_stream np g i\<close> is the \<open>i\<close>-th sample in \<open>[0, 1)\<close>
  of a generator built from the seed material \<open>g\<close>, and \<open>qr_factor np A\<close> gives the entries
  of the factor \<open>Q\<close> of \<open>A\<close>.

  So are the rounded operations: \<open>float_mul np a b\<close> and \<open>float_add np a b\<close> are the
  floating-point numbers the machine returns for \<open>a * b\<close> and \<open>a + b\<close>, and
  \<open>linalg_norm np v\<close> is the floating-point number \<^verbatim>\<open>np.linalg.norm(v)\<close> returns.
\<close>

record numpy =
  bit_stream :: "nat \<Rightarrow> nat \<Rightarrow> real"
  qr_factor :: "ndarray2 \<Rightarrow> nat \<Rightarrow> nat \<Rightarrow> real"
  float_mul :: "real \<Rightarrow> real \<Rightarrow> real"
  float_add :: "real \<Rightarrow> real \<Rightarrow> real"
  linalg_norm :: "real list \<Rightarrow> real"

text \<open>
  The floating-point difference \<open>a - b\<close>: in IEEE 754 arithmetic it is the sum of \<open>a\<close>
  and the negated \<open>b\<close>, and negation is exact.
\<close>

definition float_sub :: "numpy \<Rightarrow> real \<Rightarrow> real \<Rightarrow> real" where
  "float_sub np a b = float_add np a (- b)"

text \<open>
  \<^verbatim>\<open>np.random.default_rng(seed)\<close>: an integer seed fixes the generator; with
  \<^verbatim>\<open>None\<close> the generator is built from fresh entropy of the operating system, which
  is the argument \<open>entropy\<close> of every function that makes a generator.
\<close>

definition default_rng :: "nat \<Rightarrow> nat option \<Rightarrow> nat" where
  "default_rng entropy seed = (case seed of None \<Rightarrow> entropy | Some s \<Rightarrow> s)"

text \<open>\<^verbatim>\<open>rng.random(n)\<close> and \<^verbatim>\<open>rng.random((m, m))\<close> (filled row by row) on a new generator.\<close>

definition rng_random :: "numpy \<Rightarrow> nat \<Rightarrow> nat \<Rightarrow> real list" where
  "rng_random np g n = map (bit_stream np g) [0..<n]"

definition rng_random2 :: "numpy \<Rightarrow> nat \<Rightarrow> nat \<Rightarrow> ndarray2" where
  "rng_random2 np g m = \<lparr>shape0 = m, shape1 = m, entry = (\<lambda>i j. bit_stream np g (i * m + j))\<rparr>"

text \<open>\<^verbatim>\<open>Q, _ = np.linalg.qr(A)\<close> (reduced mode): \<open>Q\<close> has the rows of \<open>A\<close>.\<close>

definition linalg_qr :: "numpy \<Rightarrow> ndarray2 \<Rightarrow> ndarray2" where
  "linalg_qr np A =
     \<lparr>shape0 = shape0 A, shape1 = min (shape0 A) (shape1 A), entry = qr_factor np A\<rparr>"

text \<open>The contract of the factorisation: the columns of \<open>Q\<close> are orthonormal.\<close>

definition orthonormal_cols :: "ndarray2 \<Rightarrow> bool" where
  "orthonormal_cols Q \<longleftrightarrow>
     (\<forall>i\<in>{..<shape1 Q}. \<forall>j\<in>{..<shape1 Q}.
        (\<Sum>k<shape0 Q. entry Q k i * entry Q k j) = (if i = j then 1 else 0))"

subsection \<open>The notebook's helper functions\<close>

text \<open>\<^verbatim>\<open>randunif(n, a=0, b=1, seed=None)\<close>\<close>

definition randunif :: "numpy \<Rightarrow> nat \<Rightarrow> nat \<Rightarrow> real \<Rightarrow> real \<Rightarrow> nat option \<Rightarrow> real list" where
  "randunif np entropy n a b seed =
     (let rng = default_rng entropy seed
      in map (\<lambda>u. (b - a) * u + a) (rng_random np rng n))"

text \<open>
  \<^verbatim>\<open>random_frame(input_dimension, redundancy=2, frame_dimension=None, seed=None)\<close>.
  The frame dimension is the truncated floating-point product
  \<^verbatim>\<open>int(input_dimension * redundancy)\<close> unless it is given. Drawing a matrix of negative
  size raises in the library.
\<close>

definition frame_dim :: "numpy \<Rightarrow> int \<Rightarrow> real \<Rightarrow> int option \<Rightarrow> int" where
  "frame_dim np input_dimension redundancy frame_dimension =
     (case frame_dimension of
        None \<Rightarrow> py_int (float_mul np (of_int input_dimension) redundancy)
      | Some fd \<Rightarrow> fd)"

definition random_frame ::
  "numpy \<Rightarrow> nat \<Rightarrow> int \<Rightarrow> real \<Rightarrow> int option \<Rightarrow> nat option \<Rightarrow> ndarray2 result" where
  "random_frame np entropy input_dimension redundancy frame_dimension seed =
     (let n = input_dimension;
          m = frame_dim np input_dimension redundancy frame_dimension;
          rng = default_rng entropy seed
      in if m < 0 then Inl ValueError
         else let rand_mat = rng_random2 np rng (nat m);
                  Q = linalg_qr np rand_mat
              in Inr (slice_cols Q n))"

text \<open>
  The projection error function of \<^verbatim>\<open>gs_phaseless\<close>:
  \<^verbatim>\<open>err = lambda z : np.linalg.norm(np.abs(F.dot(z)) - magnitude)\<close>
\<close>

definition err :: "ndarray2 \<Rightarrow> real list \<Rightarrow> 'a::real_normed_vector list \<Rightarrow> real result" where
  "err F magnitude z =
     bindR (matvec F z) (\<lambda>Fz.
     bindR (broadcast2 (-) (map norm Fz) magnitude) (\<lambda>d.
     Inr (norm2 d)))"

text \<open>
  The first three statements of the loop body: \<^verbatim>\<open>X0 = F @ x0\<close>,
  \<^verbatim>\<open>Y0 = b * np.exp(1j * np.angle(X0))\<close>, \<^verbatim>\<open>y0 = F.T @ Y0\<close>.
\<close>

definition back_project :: "real list \<Rightarrow> ndarray2 \<Rightarrow> real list \<Rightarrow> complex list result" where
  "back_project b F x0 =
     bindR (matvec F x0) (\<lambda>X0.
     bindR (broadcast2 (\<lambda>bk e. complex_of_real bk * e) b
              (map (\<lambda>t. exp (\<i> * complex_of_real (angle t))) X0)) (\<lambda>Y0.
     matvec (transpose_arr F) Y0))"

text \<open>
  One pass of the loop body; the last two statements are
  \<^verbatim>\<open>x0 = y0 if err(y0) < err(-y0) else -y0\<close> and \<^verbatim>\<open>x0 = np.real(x0)\<close>.
\<close>

definition gs_iter :: "real list \<Rightarrow> ndarray2 \<Rightarrow> real list \<Rightarrow> real list result" where
  "gs_iter b F x0 =
     bindR (back_project b F x0) (\<lambda>y0.
     bindR (err F b y0) (\<lambda>e_pos.
     bindR (err F b (map uminus y0)) (\<lambda>e_neg.
     Inr (map Re (if e_pos < e_neg then y0 else map uminus y0)))))"

text \<open>\<^verbatim>\<open>for i in range(num_iter): ...\<close> over the list of indices.\<close>

fun gs_loop :: "real list \<Rightarrow> ndarray2 \<Rightarrow> nat list \<Rightarrow> real list \<Rightarrow> real list result" where
  "gs_loop b F [] x0 = Inr x0"
| "gs_loop b F (i # is) x0 =
     (case gs_iter b F x0 of Inl e \<Rightarrow> Inl e | Inr x1 \<Rightarrow> gs_loop b F is x1)"

text \<open>\<^verbatim>\<open>gs_phaseless(magnitude, frame, num_iter=200, seed=None)\<close>\<close>

definition gs_phaseless ::
  "numpy \<Rightarrow> nat \<Rightarrow> real list \<Rightarrow> ndarray2 \<Rightarrow> nat \<Rightarrow> nat option \<Rightarrow> real list result" where
  "gs_phaseless np entropy magnitude frame num_iter seed =
     (let b = magnitude;
          F = frame;
          n = shape1 F;
          x0 = randunif np entropy n (-1) 1 seed
      in gs_loop b F [0..<num_iter] x0)"

subsection \<open>The main routine\<close>

text \<open>\<^verbatim>\<open>magnitude = np.abs(F.dot(x))\<close>\<close>

definition measure_abs :: "ndarray2 \<Rightarrow> 'a::real_normed_vector list \<Rightarrow> real list result" where
  "measure_abs F x = bindR (matvec F x) (\<lambda>Fx. Inr (map norm Fx))"

text \<open>
  The error computation and the sign fix after the retrieval:
  \<^verbatim>\<open>err_pos = np.linalg.norm(x-x0)\<close>, \<^verbatim>\<open>err_neg = np.linalg.norm(x+x0)\<close>,
  \<^verbatim>\<open>x0 = -x0 if err_neg < err_pos else x0\<close>, \<^verbatim>\<open>err = np.min([err_pos, err_neg])\<close>.
  The differences, the sums and the two norms are the computed ones.
\<close>

definition evaluate :: "numpy \<Rightarrow> real list \<Rightarrow> real list \<Rightarrow> (real list \<times> real) result" where
  "evaluate np x x0 =
     bindR (broadcast2 (float_sub np) x x0) (\<lambda>d_pos.
     bindR (broadcast2 (float_add np) x x0) (\<lambda>d_neg.
     (let err_pos = linalg_norm np d_pos;
          err_neg = linalg_norm np d_neg;
          x0' = (if err_neg < err_pos then map uminus x0 else x0);
          err = min err_pos err_neg
      in Inr (x0', err))))"

subsection \<open>The simplified loop, written from its description\<close>

text \<open>\<open>x\<^sub>i\<^sub>+\<^sub>1 = Re(- F\<^sup>t (b \<cdot> exp(i \<cdot> arg(F x\<^sub>i))))\<close>, with no residual computed.\<close>

definition gs_negated_iter :: "real list \<Rightarrow> ndarray2 \<Rightarrow> real list \<Rightarrow> real list result" where
  "gs_negated_iter b F x =
     bindR (matvec F x) (\<lambda>X.
     bindR (broadcast2 (\<lambda>bk e. complex_of_real bk * e) b
              (map (\<lambda>t. exp (\<i> * complex_of_real (angle t))) X)) (\<lambda>Y.
     bindR (matvec (transpose_arr F) Y) (\<lambda>y.
     Inr (map (\<lambda>c. Re (- c)) y))))"

fun gs_negated_loop :: "real list \<Rightarrow> ndarray2 \<Rightarrow> nat \<Rightarrow> real list \<Rightarrow> real list result" where
  "gs_negated_loop b F 0 x = Inr x"
| "gs_negated_loop b F (Suc k) x =
     (case gs_negated_iter b F x of Inl e \<Rightarrow> Inl e | Inr x' \<Rightarrow> gs_negated_loop b F k x')"

definition gs_negated ::
  "numpy \<Rightarrow> nat \<Rightarrow> real list \<Rightarrow> ndarray2 \<Rightarrow> nat \<Rightarrow> nat option \<Rightarrow> real list result" where
  "gs_negated np entropy b F num_iter seed =
     gs_negated_loop b F num_iter (randunif np entropy (shape1 F) (-1) 1 seed)"

subsection \<open>A concrete instance of the parameters\<close>

text \<open>
  Double precision: \<open>fl64 x\<close> is the number with a 53-bit significand nearest to \<open>x\<close>,
  ties going to the even significand (the exponent range is not bounded: no overflow and
  no subnormal numbers).
\<close>

definition round_half_even :: "real \<Rightarrow> int" where
  "round_half_even s =
     (let f = \<lfloor>s\<rfloor>; d = s - of_int f
      in if d < 1/2 then f else if 1/2 < d then f + 1 else if even f then f else f + 1)"

definition fl64 :: "real \<Rightarrow> real" where
  "fl64 x =
     (if x = 0 then 0
      else let e = \<lfloor>log 2 \<bar>x\<bar>\<rfloor>
           in of_int (round_half_even (x * 2 powi (52 - e))) * 2 powi (e - 52))"

text \<open>The norm as the rounded square root of the rounded sum of the rounded squares.\<close>

definition fl64_norm :: "real list \<Rightarrow> real" where
  "fl64_norm v = fl64 (sqrt (foldl (\<lambda>acc x. fl64 (acc + fl64 (x * x))) 0 v))"

text \<open>
  A linear-congruential sample stream, the identity as the orthogonal factor (the factor
  of every upper-triangular matrix with a positive diagonal), and double-precision
  arithmetic.
\<close>

definition lcg_np :: numpy where
  "lcg_np = \<lparr>bit_stream = (\<lambda>g i. real ((7 * g + 3 * i) mod 10) / 10),
             qr_factor = (\<lambda>A i j. if i = j then 1 else 0),
             float_mul = (\<lambda>a b. fl64 (a * b)),
             float_add = (\<lambda>a b. fl64 (a + b)),
             linalg_norm = fl64_norm\<rparr>"

section \<open>Basic facts about the array operations\<close>

lemma bindR_Inr [simp]: "bindR (Inr v) f = f v"
  by (simp add: bindR_def)

lemma bindR_Inl [simp]: "bindR (Inl e) f = Inl e"
  by (simp add: bindR_def)

lemma bindR_assoc: "bindR (bindR r f) g = bindR r (\<lambda>v. bindR (f v) g)"
  by (cases r) simp_all

lemma upt1: "[0..<1] = [0]"
  by simp

lemma upt2: "[0..<2] = [0, 1]"
  by (simp add: upt_rec)

lemma lt1: "{..<1::nat} = {0}"
  by auto

lemma lt2: "{..<2::nat} = {0, 1}"
  by auto

lemma matvec_Inr_length: "matvec A x = Inr v \<Longrightarrow> length x = shape1 A \<and> length v = shape0 A"
  by (auto simp: matvec_def split: if_splits)

lemma broadcast2_Inr_length:
  "broadcast2 f xs ys = Inr zs \<Longrightarrow>
     (length xs = length ys \<and> length zs = length ys) \<or>
     (length xs = 1 \<and> length zs = length ys) \<or>
     (length ys = 1 \<and> length zs = length xs)"
  by (auto simp: broadcast2_def split: if_splits)

lemma length_randunif: "length (randunif np entropy n a b seed) = n"
  by (simp add: randunif_def rng_random_def)

lemma measure_abs_uminus: "measure_abs F (map uminus z) = measure_abs F z"
  by (simp add: measure_abs_def matvec_def sum_negf o_def)

lemma err_uminus: "err F b (map uminus z) = err F b z"
  by (simp add: err_def matvec_def sum_negf o_def)

section \<open>Double-precision rounding\<close>

lemma round_half_even_of_int: "round_half_even (of_int z) = z"
  by (simp add: round_half_even_def)

lemma floor_log2_eq:
  assumes "2 powi e \<le> \<bar>x\<bar>" and "\<bar>x\<bar> < 2 powi (e + 1)"
  shows "\<lfloor>log 2 \<bar>x :: real\<bar>\<rfloor> = e"
proof -
  have "(0::real) < 2 powi e" by (simp add: zero_less_power_int)
  with assms(1) have pos: "0 < \<bar>x\<bar>" by linarith
  have p: "(2::real) powr real_of_int i = 2 powi i" for i
    by (simp add: powr_real_of_int')
  have "2 powr real_of_int e \<le> \<bar>x\<bar> \<and> \<bar>x\<bar> < 2 powr real_of_int (e + 1)"
    unfolding p using assms by simp
  then show ?thesis
    using pos floor_log_eq_powr_iff [of "\<bar>x\<bar>" 2 e] by simp
qed

lemma fl64_eval:
  assumes "2 powi e \<le> \<bar>x\<bar>" and "\<bar>x\<bar> < 2 powi (e + 1)"
  shows "fl64 x = of_int (round_half_even (x * 2 powi (52 - e))) * 2 powi (e - 52)"
proof -
  have "(0::real) < 2 powi e" by (simp add: zero_less_power_int)
  with assms(1) have "x \<noteq> 0" by linarith
  then show ?thesis
    by (simp add: fl64_def floor_log2_eq [OF assms])
qed

lemma fl64_dyadic:
  assumes "\<bar>k\<bar> < 2 ^ 53"
  shows "fl64 (of_int k * 2 powi q) = of_int k * 2 powi q"
proof (cases "k = 0")
  case True
  then show ?thesis by (simp add: fl64_def)
next
  case False
  define x :: real where "x = of_int k * 2 powi q"
  have x0: "x \<noteq> 0" using False by (simp add: x_def)
  define e where "e = \<lfloor>log 2 \<bar>x\<bar>\<rfloor>"
  have p: "(2::real) powr real_of_int i = 2 powi i" for i
    by (simp add: powr_real_of_int')
  have "2 powr real_of_int e \<le> \<bar>x\<bar>"
    using x0 floor_log_eq_powr_iff [of "\<bar>x\<bar>" 2 e] by (simp add: e_def)
  then have lo: "2 powi e \<le> \<bar>x\<bar>" by (simp only: p)
  have "real_of_int \<bar>k\<bar> < real_of_int (2 ^ 53)"
    using assms by (simp only: of_int_less_iff)
  then have k53: "\<bar>real_of_int k\<bar> < 2 ^ 53" by simp
  have "\<bar>real_of_int k\<bar> * 2 powi q < 2 ^ 53 * 2 powi q"
    using k53 by (rule mult_strict_right_mono) (simp add: zero_less_power_int)
  also have "(2::real) ^ 53 * 2 powi q = 2 powi (53 + q)"
    by (simp add: power_int_add)
  finally have hi: "\<bar>x\<bar> < 2 powi (53 + q)"
    by (simp add: x_def abs_mult power_int_abs)
  have "e < 53 + q"
  proof (rule ccontr)
    assume "\<not> e < 53 + q"
    then have "53 + q \<le> e" by simp
    then have "(2::real) powi (53 + q) \<le> 2 powi e"
      by (rule power_int_increasing) simp
    with lo hi show False by linarith
  qed
  define t where "t = nat (52 + q - e)"
  have t: "int t = 52 + q - e"
    using \<open>e < 53 + q\<close> by (simp add: t_def)
  have "x * 2 powi (52 - e) = of_int k * (2 powi q * 2 powi (52 - e))"
    by (simp add: x_def)
  also have "2 powi q * 2 powi (52 - e) = (2::real) powi (q + (52 - e))"
    by (simp add: power_int_add)
  also have "q + (52 - e) = int t" using t by simp
  finally have "x * 2 powi (52 - e) = of_int k * 2 ^ t" by simp
  then have sc: "x * 2 powi (52 - e) = of_int (k * 2 ^ t)" by simp
  have "fl64 x = of_int (round_half_even (x * 2 powi (52 - e))) * 2 powi (e - 52)"
    using x0 by (simp add: fl64_def e_def Let_def)
  also have "\<dots> = of_int (k * 2 ^ t) * 2 powi (e - 52)"
    by (simp only: sc round_half_even_of_int)
  also have "\<dots> = of_int k * (2 powi int t * 2 powi (e - 52))"
    by simp
  also have "2 powi int t * 2 powi (e - 52) = (2::real) powi (int t + (e - 52))"
    by (simp add: power_int_add)
  also have "int t + (e - 52) = q" using t by simp
  finally show ?thesis by (simp add: x_def)
qed

lemma fl64_values:
  "fl64 0 = 0" "fl64 1 = 1" "fl64 2 = 2" "fl64 3 = 3" "fl64 4 = 4" "fl64 5 = 5"
  "fl64 8 = 8" "fl64 9 = 9" "fl64 16 = 16" "fl64 25 = 25"
  "fl64 (- 2) = - 2" "fl64 (- 4) = - 4" "fl64 (3 / 2) = 3 / 2" "fl64 (15 / 4) = 15 / 4"
  using fl64_dyadic [of 0 0] fl64_dyadic [of 1 0] fl64_dyadic [of 2 0] fl64_dyadic [of 3 0]
    fl64_dyadic [of 4 0] fl64_dyadic [of 5 0] fl64_dyadic [of 8 0] fl64_dyadic [of 9 0]
    fl64_dyadic [of 16 0] fl64_dyadic [of 25 0] fl64_dyadic [of "- 2" 0]
    fl64_dyadic [of "- 4" 0] fl64_dyadic [of 3 "- 1"] fl64_dyadic [of 15 "- 2"]
  by simp_all

text \<open>
  Rounding is visible in the products \<open>10 * 0.7\<close> and \<open>10 * 2.3\<close> of two doubles: the
  exact products lie just below \<open>7\<close> and \<open>23\<close>, the computed ones are \<open>7\<close> and \<open>23\<close>.
\<close>

lemma fl64_ten_times_seven_tenths: "fl64 (10 * (3152519739159347 / 4503599627370496)) = 7"
  using fl64_eval [of 2 "10 * (3152519739159347 / 4503599627370496)"]
  by (simp add: round_half_even_def)

lemma fl64_ten_times_twentythree_tenths:
  "fl64 (10 * (2589569785738035 / 1125899906842624)) = 23"
  using fl64_eval [of 4 "10 * (2589569785738035 / 1125899906842624)"]
  by (simp add: round_half_even_def)

section \<open>Magnitudes do not see the sign\<close>

text \<open>
  C5. For every real matrix \<open>F\<close> and every real vector \<open>z\<close>, the elementwise magnitude of
  \<open>F z\<close> equals the elementwise magnitude of \<open>F (-z)\<close>. Both products raise when the
  length of \<open>z\<close> is not the column count of \<open>F\<close>; when it is, both are computed and their
  absolute values agree componentwise.
\<close>

theorem magnitude_sign_invariant:
  fixes z :: "real list"
  shows "measure_abs F (map uminus z) = measure_abs F z \<and>
         (length z = shape1 F \<longrightarrow>
            (\<exists>u w. matvec F z = Inr u \<and> matvec F (map uminus z) = Inr w \<and>
                   map abs w = map abs u))"
  by (simp add: measure_abs_uminus) (simp add: matvec_def sum_negf o_def)

theorem magnitude_sign_invariant_witness:
  "length [1, -1 :: real] = shape1 (of_rows 2 [[1, 2], [3, -4]]) \<and>
   measure_abs (of_rows 2 [[1, 2], [3, -4]]) (map uminus [1, -1 :: real]) = Inr [1, 7] \<and>
   measure_abs (of_rows 2 [[1, 2], [3, -4]]) [1, -1 :: real] = Inr [1, 7]"
  using magnitude_sign_invariant [of "of_rows 2 [[1, 2], [3, -4]]" "[1, -1]"]
  by (simp add: measure_abs_def matvec_def of_rows_def upt2 lt2)

section \<open>Determinism under a seed\<close>

text \<open>
  C10. With a seed that is not \<^verbatim>\<open>None\<close> and the other arguments equal, two calls of
  \<open>randunif\<close>, of \<open>random_frame\<close> and of \<open>gs_phaseless\<close> return the same output: the
  result does not depend on the entropy the operating system would supply.
\<close>

theorem seeded_determinism:
  "randunif np e1 n a b (Some s) = randunif np e2 n a b (Some s) \<and>
   random_frame np e1 input_dimension redundancy frame_dimension (Some s) =
     random_frame np e2 input_dimension redundancy frame_dimension (Some s) \<and>
   gs_phaseless np e1 magnitude frame num_iter (Some s) =
     gs_phaseless np e2 magnitude frame num_iter (Some s)"
  by (simp add: randunif_def random_frame_def gs_phaseless_def default_rng_def)

text \<open>Without a seed the output follows the entropy: two calls may differ.\<close>

lemma unseeded_calls_may_differ:
  "randunif lcg_np 1 3 (-1) 1 None \<noteq> randunif lcg_np 2 3 (-1) 1 None"
  by (simp add: randunif_def lcg_np_def default_rng_def rng_random_def upt_rec)

section \<open>One pass of the loop\<close>

lemma back_project_Inr:
  assumes "back_project b F x = Inr y"
  shows "length x = shape1 F \<and> length y = shape1 F \<and> (length b = shape0 F \<or> length b = 1)"
proof -
  from assms obtain X0 Y0 where X: "matvec F x = Inr X0"
    and Y: "broadcast2 (\<lambda>bk e. complex_of_real bk * e) b
              (map (\<lambda>t. exp (\<i> * complex_of_real (angle t))) X0) = Inr Y0"
    and y: "matvec (transpose_arr F) Y0 = Inr y"
    by (auto simp: back_project_def bindR_def split: sum.splits)
  from X have lx: "length x = shape1 F" "length X0 = shape0 F"
    using matvec_Inr_length by blast+
  from y have ly: "length Y0 = shape0 F" "length y = shape1 F"
    using matvec_Inr_length [OF y] by (simp_all add: transpose_arr_def)
  from broadcast2_Inr_length [OF Y] lx ly show ?thesis
    by auto
qed

lemma back_project_total:
  assumes "length x = shape1 F" "length b = shape0 F \<or> (length b = 1 \<and> shape0 F \<noteq> 1)"
  shows "\<exists>y. back_project b F x = Inr y"
  using assms
  by (auto simp: back_project_def matvec_def broadcast2_def transpose_arr_def)

lemma back_project_fails:
  assumes "length b \<noteq> shape0 F" "length b \<noteq> 1"
  shows "back_project b F x = Inl ValueError"
proof (cases "back_project b F x")
  case (Inl e)
  then show ?thesis by (cases e) simp
next
  case (Inr y)
  with back_project_Inr [OF Inr] assms show ?thesis by simp
qed

lemma err_total:
  assumes "length y = shape1 F" "length b = shape0 F \<or> length b = 1"
  shows "\<exists>e. err F b y = Inr e"
  using assms by (auto simp: err_def matvec_def broadcast2_def)

lemma gs_negated_iter_alt:
  "gs_negated_iter b F x = bindR (back_project b F x) (\<lambda>y. Inr (map Re (map uminus y)))"
  by (simp add: gs_negated_iter_def back_project_def bindR_assoc o_def)

lemma gs_iter_negated: "gs_iter b F x = gs_negated_iter b F x"
proof (cases "back_project b F x")
  case (Inl e)
  then show ?thesis by (simp add: gs_iter_def gs_negated_iter_alt)
next
  case (Inr y)
  from back_project_Inr [OF Inr] obtain e where "err F b y = Inr e"
    using err_total by blast
  with Inr show ?thesis
    by (simp add: gs_iter_def gs_negated_iter_alt err_uminus)
qed

lemma gs_loop_negated: "gs_loop b F js x = gs_negated_loop b F (length js) x"
  by (induction js arbitrary: x) (simp_all add: gs_iter_negated split: sum.splits)

lemma gs_loop_append:
  "gs_loop b F (is @ js) x = bindR (gs_loop b F is x) (gs_loop b F js)"
  by (induction "is" arbitrary: x) (simp_all split: sum.splits)

lemma gs_loop_single: "gs_loop b F [i] x = gs_iter b F x"
  by (simp split: sum.splits)

lemma gs_iter_total:
  assumes "length x = shape1 F" "length b = shape0 F \<or> (length b = 1 \<and> shape0 F \<noteq> 1)"
  shows "\<exists>x'. gs_iter b F x = Inr x' \<and> length x' = shape1 F"
proof -
  from back_project_total [OF assms] obtain y where y: "back_project b F x = Inr y" ..
  from back_project_Inr [OF y] have "length y = shape1 F" by simp
  with y show ?thesis
    by (simp add: gs_iter_negated gs_negated_iter_alt)
qed

lemma gs_loop_total:
  assumes "length b = shape0 F \<or> (length b = 1 \<and> shape0 F \<noteq> 1)"
  shows "length x = shape1 F \<Longrightarrow> \<exists>x'. gs_loop b F js x = Inr x' \<and> length x' = shape1 F"
proof (induction js arbitrary: x)
  case Nil
  then show ?case by simp
next
  case (Cons j js)
  from gs_iter_total [OF Cons.prems assms] obtain x1
    where "gs_iter b F x = Inr x1" "length x1 = shape1 F" by blast
  with Cons.IH [of x1] show ?case by simp
qed

lemma back_project_unit: "back_project [1] (of_rows 1 [[1]]) [1] = Inr [1]"
  by (simp add: back_project_def matvec_def broadcast2_def transpose_arr_def of_rows_def
      angle_def upt1 lt1)

lemma err_unit: "err (of_rows 1 [[1]]) [1] [1 :: complex] = Inr 0"
  by (simp add: err_def matvec_def broadcast2_def of_rows_def norm2_def upt1 lt1)

lemma err_unit_neg: "err (of_rows 1 [[1]]) [1] (map uminus [1 :: complex]) = Inr 0"
  by (simp add: err_def matvec_def broadcast2_def of_rows_def norm2_def upt1 lt1)

section \<open>The choice between the candidate and its negation\<close>

text \<open>
  C2, as stated: the next iterate is the candidate with the strictly smaller residual, and
  on an exact tie the positive candidate \<open>y\<close> is selected. On the \<open>1 \<times> 1\<close> frame \<open>[[1]]\<close>
  with \<open>b = [1]\<close> and \<open>x0 = [1]\<close> the candidate is \<open>y0 = [1]\<close>, both residuals are \<open>0\<close>,
  and the pass returns \<open>[-1]\<close>: the negated candidate.
\<close>

theorem tie_selects_positive_counterexample:
  "back_project [1] (of_rows 1 [[1]]) [1] = Inr [1] \<and>
   err (of_rows 1 [[1]]) [1] [1 :: complex] = Inr 0 \<and>
   err (of_rows 1 [[1]]) [1] (map uminus [1 :: complex]) = Inr 0 \<and>
   gs_iter [1] (of_rows 1 [[1]]) [1] = Inr [-1]"
  by (simp add: gs_iter_def back_project_def err_def matvec_def broadcast2_def transpose_arr_def
      of_rows_def angle_def norm2_def upt1 lt1)

text \<open>
  C2, amended: in each pass the next iterate is the real part of the candidate \<open>y0\<close> only
  when the residual of \<open>y0\<close> is strictly smaller than the residual of \<open>-y0\<close>; otherwise,
  and so on an exact tie, it is the real part of the negated candidate \<open>-y0\<close>.
\<close>

theorem gs_iter_selection:
  assumes "back_project b F x0 = Inr y0"
    and "err F b y0 = Inr e_pos"
    and "err F b (map uminus y0) = Inr e_neg"
  shows "gs_iter b F x0 = Inr (map Re (if e_pos < e_neg then y0 else map uminus y0))"
  using assms by (simp add: gs_iter_def)

theorem gs_iter_selection_witness:
  "back_project [1] (of_rows 1 [[1]]) [1] = Inr [1] \<and>
   err (of_rows 1 [[1]]) [1] [1 :: complex] = Inr 0 \<and>
   err (of_rows 1 [[1]]) [1] (map uminus [1 :: complex]) = Inr 0 \<and>
   gs_iter [1] (of_rows 1 [[1]]) [1] =
     Inr (map Re (if (0::real) < 0 then [1] else map uminus [1]))"
  using gs_iter_selection [OF back_project_unit err_unit err_unit_neg]
    back_project_unit err_unit err_unit_neg
  by blast

text \<open>
  C6. In every pass the two residuals are equal, \<open>err(y0) = err(-y0)\<close>, so the comparison
  is false and the pass returns the real part of the negated candidate; \<open>gs_phaseless\<close>
  is extensionally equal to the loop \<open>x\<^sub>i\<^sub>+\<^sub>1 = Re(- F\<^sup>t (b \<cdot> exp(i \<cdot> arg(F x\<^sub>i))))\<close>,
  on every input, exceptions included.
\<close>

theorem gs_phaseless_always_negates:
  "err F b (map uminus y) = err F b (y :: complex list) \<and>
   gs_iter b F x = bindR (back_project b F x) (\<lambda>y0. Inr (map Re (map uminus y0))) \<and>
   gs_phaseless np entropy b F num_iter seed = gs_negated np entropy b F num_iter seed"
  by (simp add: err_uminus gs_iter_negated gs_negated_iter_alt gs_phaseless_def gs_negated_def
      gs_loop_negated)

section \<open>The loop runs its bound\<close>

lemma gs_phaseless_zero:
  "gs_phaseless np entropy b F 0 seed = Inr (randunif np entropy (shape1 F) (-1) 1 seed)"
  by (simp add: gs_phaseless_def)

lemma gs_phaseless_Suc:
  "gs_phaseless np entropy b F (Suc k) seed =
     bindR (gs_phaseless np entropy b F k seed) (gs_iter b F)"
proof -
  have "gs_loop b F [0..<Suc k] x0 = bindR (gs_loop b F [0..<k] x0) (gs_loop b F [k])" for x0
    by (simp add: gs_loop_append del: gs_loop.simps)
  moreover have "gs_loop b F [k] = gs_iter b F"
    using gs_loop_single by blast
  ultimately show ?thesis
    by (simp add: gs_phaseless_def)
qed

lemma gs_phaseless_total:
  assumes "length b = shape0 F"
  shows "\<exists>x. gs_phaseless np entropy b F k seed = Inr x \<and> length x = shape1 F"
  using gs_loop_total [of b F "randunif np entropy (shape1 F) (-1) 1 seed" "[0..<k]"]
    assms length_randunif
  by (auto simp: gs_phaseless_def)

text \<open>
  C8. \<open>gs_phaseless\<close> terminates (the model is a total function); with \<open>num_iter = 0\<close> it
  returns the random initial guess; with \<open>num_iter = k + 1\<close> it returns what one more pass
  makes of the result for \<open>k\<close>, so the body runs exactly \<open>num_iter\<close> times with no early
  stop; and when \<open>b\<close> has one entry for each row of \<open>F\<close> no pass raises and the result is
  an iterate of the signal dimension.
\<close>

theorem gs_phaseless_runs_num_iter_passes:
  "gs_phaseless np entropy b F 0 seed = Inr (randunif np entropy (shape1 F) (-1) 1 seed) \<and>
   gs_phaseless np entropy b F (Suc k) seed =
     bindR (gs_phaseless np entropy b F k seed) (gs_iter b F) \<and>
   (length b = shape0 F \<longrightarrow>
      (\<exists>x. gs_phaseless np entropy b F k seed = Inr x \<and> length x = shape1 F))"
  using gs_phaseless_zero gs_phaseless_Suc gs_phaseless_total by blast

theorem gs_phaseless_runs_num_iter_passes_witness:
  "length [1 :: real] = shape0 (of_rows 1 [[1]]) \<and>
   (\<exists>x. gs_phaseless lcg_np 0 [1] (of_rows 1 [[1]]) 3 (Some 1) = Inr x \<and>
        length x = shape1 (of_rows 1 [[1]])) \<and>
   gs_phaseless lcg_np 0 [1] (of_rows 1 [[1]]) 0 (Some 1) = Inr [2 / 5] \<and>
   gs_phaseless lcg_np 0 [1] (of_rows 1 [[1]]) (Suc 2) (Some 1) =
     bindR (gs_phaseless lcg_np 0 [1] (of_rows 1 [[1]]) 2 (Some 1))
       (gs_iter [1] (of_rows 1 [[1]]))"
  using gs_phaseless_runs_num_iter_passes [of lcg_np 0 "[1]" "of_rows 1 [[1]]" "Some 1" 2]
    gs_phaseless_runs_num_iter_passes [of lcg_np 0 "[1]" "of_rows 1 [[1]]" "Some 1" 3]
  by (simp add: of_rows_def randunif_def rng_random_def default_rng_def lcg_np_def upt1)

section \<open>The sign fix of the main routine\<close>

lemma broadcast2_uminus:
  "broadcast2 f x (map uminus xh) = broadcast2 (\<lambda>a b. f a (- b)) x (xh :: real list)"
proof -
  have "map2 f x (map uminus xh) = map2 (\<lambda>a b. f a (- b)) x xh"
    by (simp add: zip_map2 case_prod_unfold)
  moreover have "length xh = 1 \<Longrightarrow> hd (map uminus xh) = - hd xh"
    by (cases xh) simp_all
  ultimately show ?thesis
    unfolding broadcast2_def by (simp add: o_def)
qed

lemma broadcast2_sub_uminus:
  "broadcast2 (float_sub np) x (map uminus xh) = broadcast2 (float_add np) x xh"
  unfolding broadcast2_uminus by (simp add: float_sub_def)

lemma broadcast2_add_uminus:
  "broadcast2 (float_add np) x (map uminus xh) = broadcast2 (float_sub np) x xh"
proof -
  have "float_sub np = (\<lambda>a b. float_add np a (- b))"
    by (simp add: fun_eq_iff float_sub_def)
  then show ?thesis
    by (simp only: broadcast2_uminus)
qed

lemma evaluate_Inr:
  assumes "broadcast2 (float_sub np) x xh = Inr d_pos"
    and "broadcast2 (float_add np) x xh = Inr d_neg"
  shows "evaluate np x xh =
     Inr (if linalg_norm np d_neg < linalg_norm np d_pos then map uminus xh else xh,
          min (linalg_norm np d_pos) (linalg_norm np d_neg))"
  using assms by (simp add: evaluate_def Let_def)

lemma sqrt_25: "sqrt 25 = 5"
  by (rule real_sqrt_unique) simp_all

lemma sub_3_0_0_4: "broadcast2 (float_sub lcg_np) [3, 0] [0, 4] = Inr [3, - 4]"
  by (simp add: broadcast2_def float_sub_def lcg_np_def fl64_values)

lemma add_3_0_0_4: "broadcast2 (float_add lcg_np) [3, 0] [0, 4] = Inr [3, 4]"
  by (simp add: broadcast2_def lcg_np_def fl64_values)

lemma norm_3_4: "linalg_norm lcg_np [3, - 4] = 5" "linalg_norm lcg_np [3, 4] = 5"
  by (simp_all add: lcg_np_def fl64_norm_def fl64_values sqrt_25)

text \<open>
  C7, as stated: evaluating \<open>(x, x\<^sub>h)\<close> and \<open>(x, -x\<^sub>h)\<close> yields the same corrected estimate.
  For \<open>x = [3, 0]\<close> and \<open>x\<^sub>h = [0, 4]\<close> both distances are \<open>5\<close>, computed without
  rounding; neither call changes the sign, and the corrected estimates are \<open>[0, 4]\<close> and
  \<open>[0, -4]\<close>.
\<close>

theorem evaluate_negation_counterexample:
  "evaluate lcg_np [3, 0] [0, 4] = Inr ([0, 4], 5) \<and>
   evaluate lcg_np [3, 0] (map uminus [0, 4]) = Inr ([0, - 4], 5)"
proof -
  have "broadcast2 (float_sub lcg_np) [3, 0] (map uminus [0, 4]) = Inr [3, 4]"
    unfolding broadcast2_sub_uminus by (rule add_3_0_0_4)
  moreover have "broadcast2 (float_add lcg_np) [3, 0] (map uminus [0, 4]) = Inr [3, - 4]"
    unfolding broadcast2_add_uminus by (rule sub_3_0_0_4)
  ultimately show ?thesis
    using sub_3_0_0_4 add_3_0_0_4 by (simp add: evaluate_Inr norm_3_4)
qed

text \<open>
  C7, amended: for every ground truth \<open>x\<close> and estimate \<open>x\<^sub>h\<close>, evaluating \<open>(x, x\<^sub>h)\<close> and
  \<open>(x, -x\<^sub>h)\<close> yields the same reported error
  \<open>min(\<parallel>x - x\<^sub>h\<parallel>, \<parallel>x + x\<^sub>h\<parallel>)\<close>, the two norms being the floating-point numbers the
  machine computes; the corrected estimate is \<open>-x\<^sub>h\<close> if the computed \<open>\<parallel>x + x\<^sub>h\<parallel>\<close> is
  smaller than the computed \<open>\<parallel>x - x\<^sub>h\<parallel>\<close> and \<open>x\<^sub>h\<close> unchanged otherwise; the two
  corrected estimates are the same whenever the two computed norms differ, and are each
  other's negation when the two computed norms are equal.
\<close>

theorem evaluate_negation:
  assumes "broadcast2 (float_sub np) x xh = Inr d_pos"
    and "broadcast2 (float_add np) x xh = Inr d_neg"
  shows "\<exists>c c' e. evaluate np x xh = Inr (c, e) \<and>
           evaluate np x (map uminus xh) = Inr (c', e) \<and>
           e = min (linalg_norm np d_pos) (linalg_norm np d_neg) \<and>
           c = (if linalg_norm np d_neg < linalg_norm np d_pos then map uminus xh else xh) \<and>
           (linalg_norm np d_neg \<noteq> linalg_norm np d_pos \<longrightarrow> c' = c) \<and>
           (linalg_norm np d_neg = linalg_norm np d_pos \<longrightarrow> c' = map uminus c)"
proof -
  have n1: "broadcast2 (float_sub np) x (map uminus xh) = Inr d_neg"
    using assms(2) by (simp add: broadcast2_sub_uminus)
  have n2: "broadcast2 (float_add np) x (map uminus xh) = Inr d_pos"
    using assms(1) by (simp add: broadcast2_add_uminus)
  have mm: "map uminus (map uminus xh) = xh"
    by (simp add: o_def)
  show ?thesis
    unfolding evaluate_Inr [OF assms] evaluate_Inr [OF n1 n2] mm
    by (auto simp: min.commute)
qed

theorem evaluate_negation_witness:
  "broadcast2 (float_sub lcg_np) [1, 0] [1, 0] = Inr [0, 0] \<and>
   broadcast2 (float_add lcg_np) [1, 0] [1, 0] = Inr [2, 0] \<and>
   evaluate lcg_np [1, 0] [1, 0] = Inr ([1, 0], 0) \<and>
   evaluate lcg_np [1, 0] (map uminus [1, 0]) = Inr ([1, 0], 0)"
proof -
  have 1: "broadcast2 (float_sub lcg_np) [1, 0] [1, 0] = Inr [0, 0]"
    by (simp add: broadcast2_def float_sub_def lcg_np_def fl64_values)
  have 2: "broadcast2 (float_add lcg_np) [1, 0] [1, 0] = Inr [2, 0]"
    by (simp add: broadcast2_def lcg_np_def fl64_values)
  have n: "linalg_norm lcg_np [0, 0] = 0" "linalg_norm lcg_np [2, 0] = 2"
    by (simp_all add: lcg_np_def fl64_norm_def fl64_values sqrt_25)
  from evaluate_negation [OF 1 2] 1 2 show ?thesis
    by (auto simp: n)
qed

lemma fl64_near_one: "fl64 (1 + 1 / 2 ^ 60) = 1" "fl64 (1 - 1 / 2 ^ 60) = 1" "fl64 (- 1) = - 1"
  using fl64_eval [of 0 "1 + 1 / 2 ^ 60"] fl64_eval [of "- 1" "1 - 1 / 2 ^ 60"]
    fl64_dyadic [of "- 1" 0]
  by (simp_all add: round_half_even_def)

lemma sub_tie: "broadcast2 (float_sub lcg_np) [1, 0] [- (1 / 2 ^ 60), - 1] = Inr [1, 1]"
  using fl64_near_one by (simp add: broadcast2_def float_sub_def lcg_np_def fl64_values)

lemma add_tie: "broadcast2 (float_add lcg_np) [1, 0] [- (1 / 2 ^ 60), - 1] = Inr [1, - 1]"
  using fl64_near_one by (simp add: broadcast2_def lcg_np_def fl64_values)

lemma norm_tie: "linalg_norm lcg_np [1, 1] = fl64 (sqrt 2)" "linalg_norm lcg_np [1, - 1] = fl64 (sqrt 2)"
  by (simp_all add: lcg_np_def fl64_norm_def fl64_values)

text \<open>
  A tie that only rounding produces: for \<open>x = [1, 0]\<close> and \<open>x\<^sub>h = -[2\<^sup>-\<^sup>6\<^sup>0, 1]\<close> the exact
  norms differ, the computed ones are both \<open>fl64 (sqrt 2)\<close>, and each call returns its
  estimate unchanged.
\<close>

lemma evaluate_rounded_tie:
  "evaluate lcg_np [1, 0] [- (1 / 2 ^ 60), - 1] = Inr ([- (1 / 2 ^ 60), - 1], fl64 (sqrt 2)) \<and>
   evaluate lcg_np [1, 0] (map uminus [- (1 / 2 ^ 60), - 1]) = Inr ([1 / 2 ^ 60, 1], fl64 (sqrt 2)) \<and>
   norm2 [1 + 1 / 2 ^ 60, 1] \<noteq> norm2 [1 - 1 / 2 ^ 60, - 1]"
proof -
  have "broadcast2 (float_sub lcg_np) [1, 0] (map uminus [- (1 / 2 ^ 60), - 1]) = Inr [1, - 1]"
    unfolding broadcast2_sub_uminus by (rule add_tie)
  moreover have "broadcast2 (float_add lcg_np) [1, 0] (map uminus [- (1 / 2 ^ 60), - 1]) = Inr [1, 1]"
    unfolding broadcast2_add_uminus by (rule sub_tie)
  moreover have "norm2 [1 + 1 / 2 ^ 60, 1] \<noteq> norm2 [1 - 1 / 2 ^ 60, - 1]"
    by (simp add: norm2_def power2_eq_square)
  ultimately show ?thesis
    using sub_tie add_tie by (simp add: evaluate_Inr norm_tie)
qed

section \<open>The frame generator\<close>

lemma random_frame_Inr:
  assumes "0 \<le> frame_dim np n r fd"
  shows "random_frame np entropy n r fd seed =
     Inr (slice_cols (linalg_qr np
            (rng_random2 np (default_rng entropy seed) (nat (frame_dim np n r fd)))) n)"
  using assms by (simp add: random_frame_def Let_def)

lemma shape_slice_qr:
  "shape0 (slice_cols (linalg_qr np (rng_random2 np g m)) n) = m \<and>
   shape1 (slice_cols (linalg_qr np (rng_random2 np g m)) n) =
     nat (if n < 0 then max (int m + n) 0 else min n (int m))"
  by (simp add: slice_cols_def linalg_qr_def rng_random2_def Let_def)

text \<open>
  C3, as stated: without an explicit frame dimension, \<open>random_frame\<close> uses
  \<open>m = round(n \<cdot> r)\<close> and returns a matrix of shape \<open>m \<times> n\<close>. For \<open>n = 2\<close> and
  \<open>r = 1.875\<close> the product is \<open>3.75\<close>, computed without rounding; it rounds to \<open>4\<close>, and
  the matrix has \<open>3\<close> rows. For \<open>n = 2\<close> and \<open>r = 0.5\<close> the matrix is \<open>1 \<times> 1\<close>, not
  \<open>1 \<times> 2\<close>.
\<close>

theorem random_frame_rounds_counterexample:
  "shape0 (projr (random_frame lcg_np 0 2 (15/8) None (Some 1))) = 3 \<and>
   round (real_of_int 2 * (15/8)) = (4::int) \<and>
   shape0 (projr (random_frame lcg_np 0 2 (1/2) None (Some 1))) = 1 \<and>
   shape1 (projr (random_frame lcg_np 0 2 (1/2) None (Some 1))) = 1"
  by (simp add: random_frame_def frame_dim_def py_int_def slice_cols_def linalg_qr_def
      rng_random2_def Let_def round_def lcg_np_def fl64_values)

text \<open>
  C3, amended: for every input dimension \<open>n \<ge> 0\<close>, redundancy factor \<open>r\<close> with
  \<open>int(n \<cdot> r) \<ge> 0\<close>, and seed, when no explicit frame dimension is supplied,
  \<open>random_frame\<close> uses the frame dimension \<open>m = int(n \<cdot> r)\<close>, the floating-point product
  as the machine computes it, truncated toward zero (not rounded to the nearest integer),
  and returns a matrix of shape \<open>m \<times> min(n, m)\<close>, which is \<open>m \<times> n\<close> when \<open>n \<le> m\<close>.
\<close>

theorem random_frame_truncates:
  assumes "0 \<le> n" and "0 \<le> py_int (float_mul np (of_int n) r)"
  shows "\<exists>F. random_frame np entropy n r None seed = Inr F \<and>
           shape0 F = nat (py_int (float_mul np (of_int n) r)) \<and>
           shape1 F = min (nat n) (nat (py_int (float_mul np (of_int n) r)))"
proof -
  have m: "frame_dim np n r None = py_int (float_mul np (of_int n) r)"
    by (simp add: frame_dim_def)
  with assms(2) have "0 \<le> frame_dim np n r None" by simp
  from random_frame_Inr [OF this] show ?thesis
    using assms shape_slice_qr [of np _ "nat (py_int (float_mul np (of_int n) r))" n]
    by (simp add: m min_def)
qed

text \<open>
  The witness is the call \<^verbatim>\<open>random_frame(10, 0.7)\<close>: the double \<open>0.7\<close> is
  \<open>3152519739159347 / 2\<^sup>5\<^sup>2\<close>, the computed product is \<open>7\<close> (the exact one is smaller)
  and the frame has \<open>7\<close> rows.
\<close>

theorem random_frame_truncates_witness:
  "(0::int) \<le> 10 \<and>
   0 \<le> py_int (float_mul lcg_np (of_int 10) (3152519739159347 / 4503599627370496)) \<and>
   py_int (of_int 10 * (3152519739159347 / 4503599627370496)) = 6 \<and>
   (\<exists>F. random_frame lcg_np 0 10 (3152519739159347 / 4503599627370496) None (Some 1) = Inr F \<and>
        shape0 F = 7 \<and> shape1 F = 7)"
proof -
  have p: "float_mul lcg_np (of_int 10) (3152519739159347 / 4503599627370496) = 7"
    using fl64_ten_times_seven_tenths by (simp add: lcg_np_def)
  have 1: "(0::int) \<le> 10" by simp
  have 2: "0 \<le> py_int (float_mul lcg_np (of_int 10) (3152519739159347 / 4503599627370496))"
    unfolding p by (simp add: py_int_def)
  have 3: "py_int (of_int 10 * (3152519739159347 / 4503599627370496)) = 6"
    by (simp add: py_int_def)
  from random_frame_truncates [OF 1 2, of 0 "Some 1"] 1 2 3 show ?thesis
    unfolding p by (simp add: py_int_def)
qed

lemma sliced_gram:
  assumes "orthonormal_cols Q" and "0 \<le> n" and "n \<le> int (shape1 Q)"
  shows "\<exists>G. matmul (transpose_arr (slice_cols Q n)) (slice_cols Q n) = Inr G \<and>
             array_equal G (eye (nat n))"
  using assms
  by (simp add: matmul_def transpose_arr_def slice_cols_def array_equal_def eye_def
      orthonormal_cols_def Let_def min_def)

text \<open>
  C4. For every \<open>n \<ge> 1\<close>, \<open>r\<close> and seed with \<open>m = int(n \<cdot> r) \<ge> n\<close> (or an explicit frame
  dimension \<open>m \<ge> n\<close>), the matrix \<open>F\<close> that \<open>random_frame\<close> returns is \<open>m \<times> n\<close> and has
  orthonormal columns, \<open>F\<^sup>t F = I\<^sub>n\<close>, in exact arithmetic. The library's factorisation
  enters by its contract: the factor \<open>Q\<close> of the drawn matrix has orthonormal columns.
\<close>

theorem random_frame_orthonormal:
  assumes "1 \<le> n" and "n \<le> frame_dim np n r fd"
    and "orthonormal_cols (linalg_qr np
           (rng_random2 np (default_rng entropy seed) (nat (frame_dim np n r fd))))"
  shows "\<exists>F G. random_frame np entropy n r fd seed = Inr F \<and>
           shape0 F = nat (frame_dim np n r fd) \<and> shape1 F = nat n \<and>
           matmul (transpose_arr F) F = Inr G \<and> array_equal G (eye (nat n))"
proof -
  let ?Q = "linalg_qr np (rng_random2 np (default_rng entropy seed) (nat (frame_dim np n r fd)))"
  have m0: "0 \<le> frame_dim np n r fd"
    using assms(1,2) by simp
  have s1: "int (shape1 ?Q) = frame_dim np n r fd"
    using m0 by (simp add: linalg_qr_def rng_random2_def)
  have n0: "0 \<le> n" using assms(1) by simp
  have nQ: "n \<le> int (shape1 ?Q)" using assms(2) s1 by simp
  from sliced_gram [OF assms(3) n0 nQ] obtain G
    where G: "matmul (transpose_arr (slice_cols ?Q n)) (slice_cols ?Q n) = Inr G"
      "array_equal G (eye (nat n))" by blast
  have sh: "shape0 (slice_cols ?Q n) = nat (frame_dim np n r fd) \<and> shape1 (slice_cols ?Q n) = nat n"
    using shape_slice_qr [of np _ "nat (frame_dim np n r fd)" n] assms(1,2) m0
    by (simp add: min_def)
  show ?thesis
    unfolding random_frame_Inr [OF m0] using G sh by blast
qed

theorem random_frame_orthonormal_witness:
  "(1::int) \<le> 1 \<and> 1 \<le> frame_dim lcg_np 1 2 None \<and>
   orthonormal_cols (linalg_qr lcg_np
      (rng_random2 lcg_np (default_rng 0 (Some 1)) (nat (frame_dim lcg_np 1 2 None)))) \<and>
   (\<exists>F G. random_frame lcg_np 0 1 2 None (Some 1) = Inr F \<and>
      shape0 F = 2 \<and> shape1 F = 1 \<and>
      matmul (transpose_arr F) F = Inr G \<and> array_equal G (eye 1))"
proof -
  have fd: "frame_dim lcg_np 1 2 None = 2"
    by (simp add: frame_dim_def py_int_def lcg_np_def fl64_values)
  have 1: "(1::int) \<le> 1" by simp
  have 2: "1 \<le> frame_dim lcg_np 1 2 None" by (simp add: fd)
  have 3: "orthonormal_cols (linalg_qr lcg_np
      (rng_random2 lcg_np (default_rng 0 (Some 1)) (nat (frame_dim lcg_np 1 2 None))))"
    unfolding fd
    by (simp add: orthonormal_cols_def linalg_qr_def rng_random2_def lcg_np_def lt2)
  from random_frame_orthonormal [OF 1 2 3] 1 2 3 show ?thesis
    by (simp add: fd)
qed

section \<open>Inputs that violate the preconditions\<close>

lemma gs_phaseless_broadcast:
  assumes "length b = 1" "shape0 F \<noteq> 1"
  shows "\<exists>x. gs_phaseless np entropy b F num_iter seed = Inr x"
  using gs_loop_total [of b F "randunif np entropy (shape1 F) (-1) 1 seed" "[0..<num_iter]"]
    assms length_randunif
  by (auto simp: gs_phaseless_def)

lemma gs_phaseless_raises:
  assumes "length b \<noteq> shape0 F" "length b \<noteq> 1" "0 < num_iter"
  shows "gs_phaseless np entropy b F num_iter seed = Inl ValueError"
proof -
  have "[0..<num_iter] = 0 # [1..<num_iter]"
    using assms(3) by (simp add: upt_conv_Cons)
  moreover have "gs_iter b F x = Inl ValueError" for x
    by (simp add: gs_iter_def back_project_fails [OF assms(1,2)])
  ultimately show ?thesis
    by (simp add: gs_phaseless_def)
qed

text \<open>
  C1, as stated: a call whose frame dimension is smaller than the signal dimension, or
  whose magnitude vector does not have one entry for each row of \<open>F\<close>, fails before any
  iteration begins. \<open>random_frame\<close> with \<open>n = 3\<close> and \<open>r = 0.5\<close> (so \<open>m = 1 < n\<close>) raises
  nothing and returns a \<open>1 \<times> 1\<close> matrix; \<open>gs_phaseless\<close> with a magnitude vector of length
  \<open>1\<close> and a frame of \<open>2\<close> rows runs its pass and returns \<open>[-1]\<close>.
\<close>

theorem fail_fast_counterexample:
  "\<not> isl (random_frame lcg_np 0 3 (1/2) None (Some 1)) \<and>
   shape0 (projr (random_frame lcg_np 0 3 (1/2) None (Some 1))) = 1 \<and>
   shape1 (projr (random_frame lcg_np 0 3 (1/2) None (Some 1))) = 1 \<and>
   gs_phaseless lcg_np 0 [1] (of_rows 1 [[1], [0]]) 1 (Some 1) = Inr [-1]"
proof -
  have "gs_phaseless lcg_np 0 [1] (of_rows 1 [[1], [0]]) 1 (Some 1) = Inr [-1]"
    by (simp add: gs_phaseless_def upt1 upt2 lt1 lt2 gs_iter_negated gs_negated_iter_def
        randunif_def rng_random_def default_rng_def lcg_np_def matvec_def broadcast2_def
        transpose_arr_def of_rows_def angle_def)
  then show ?thesis
    by (simp add: random_frame_def frame_dim_def py_int_def slice_cols_def linalg_qr_def
      rng_random2_def Let_def lcg_np_def fl64_values)
qed

text \<open>
  C1, amended: neither function checks its inputs before it works. \<open>random_frame\<close> with
  a frame dimension \<open>0 \<le> m < n\<close> raises nothing and returns an \<open>m \<times> m\<close> matrix.
  \<open>gs_phaseless\<close> with a magnitude vector whose length is not the row count of \<open>F\<close>
  returns the initial guess when \<open>num_iter = 0\<close>; returns a result, the single magnitude
  being broadcast, when the vector has length \<open>1\<close>; and otherwise, when \<open>num_iter \<ge> 1\<close>,
  fails with the \<open>ValueError\<close> that the array operations of the first pass raise, with no
  partial result.
\<close>

theorem no_input_validation:
  "(0 \<le> frame_dim np n r fd \<and> frame_dim np n r fd < n \<longrightarrow>
      (\<exists>Q. random_frame np entropy n r fd seed = Inr Q \<and>
           shape0 Q = nat (frame_dim np n r fd) \<and> shape1 Q = nat (frame_dim np n r fd))) \<and>
   (length b \<noteq> shape0 F \<longrightarrow>
      gs_phaseless np entropy b F 0 seed = Inr (randunif np entropy (shape1 F) (-1) 1 seed) \<and>
      (length b = 1 \<longrightarrow> (\<exists>x. gs_phaseless np entropy b F num_iter seed = Inr x)) \<and>
      (length b \<noteq> 1 \<and> 0 < num_iter \<longrightarrow>
         gs_phaseless np entropy b F num_iter seed = Inl ValueError))"
proof (intro conjI impI)
  assume a: "0 \<le> frame_dim np n r fd \<and> frame_dim np n r fd < n"
  then have m0: "0 \<le> frame_dim np n r fd" by simp
  show "\<exists>Q. random_frame np entropy n r fd seed = Inr Q \<and>
           shape0 Q = nat (frame_dim np n r fd) \<and> shape1 Q = nat (frame_dim np n r fd)"
    unfolding random_frame_Inr [OF m0]
    using a shape_slice_qr [of np _ "nat (frame_dim np n r fd)" n]
    by (simp add: min_def)
next
  show "gs_phaseless np entropy b F 0 seed = Inr (randunif np entropy (shape1 F) (-1) 1 seed)"
    by (rule gs_phaseless_zero)
next
  assume "length b \<noteq> shape0 F" "length b = 1"
  then show "\<exists>x. gs_phaseless np entropy b F num_iter seed = Inr x"
    using gs_phaseless_broadcast [of b F] by simp
next
  assume "length b \<noteq> shape0 F" "length b \<noteq> 1 \<and> 0 < num_iter"
  then show "gs_phaseless np entropy b F num_iter seed = Inl ValueError"
    using gs_phaseless_raises by blast
qed

theorem no_input_validation_witness:
  "0 \<le> frame_dim lcg_np 3 (1/2) None \<and> frame_dim lcg_np 3 (1/2) None < 3 \<and>
   (\<exists>Q. random_frame lcg_np 0 3 (1/2) None (Some 1) = Inr Q \<and> shape0 Q = 1 \<and> shape1 Q = 1) \<and>
   length [1 :: real] \<noteq> shape0 (of_rows 1 [[1], [0]]) \<and> length [1 :: real] = 1 \<and>
   (\<exists>x. gs_phaseless lcg_np 0 [1] (of_rows 1 [[1], [0]]) 200 (Some 1) = Inr x) \<and>
   length [1, 2, 3 :: real] \<noteq> shape0 (of_rows 1 [[1], [0]]) \<and> length [1, 2, 3 :: real] \<noteq> 1 \<and>
   (0::nat) < 200 \<and>
   gs_phaseless lcg_np 0 [1, 2, 3] (of_rows 1 [[1], [0]]) 200 (Some 1) = Inl ValueError \<and>
   gs_phaseless lcg_np 0 [1, 2, 3] (of_rows 1 [[1], [0]]) 0 (Some 1) =
     Inr (randunif lcg_np 0 1 (-1) 1 (Some 1))"
proof -
  have fd: "frame_dim lcg_np 3 (1/2) None = 1"
    by (simp add: frame_dim_def py_int_def lcg_np_def fl64_values)
  show ?thesis
    using no_input_validation [of lcg_np 3 "1/2" None 0 "Some 1" "[1]" "of_rows 1 [[1], [0]]" 200]
      no_input_validation [of lcg_np 3 "1/2" None 0 "Some 1" "[1, 2, 3]" "of_rows 1 [[1], [0]]" 200]
    by (simp add: fd of_rows_def)
qed

section \<open>The residual along the iteration\<close>

text \<open>
  The projection argument on indexed sums: with orthonormal columns, \<open>F F\<^sup>t v\<close> is the
  point of the range of \<open>F\<close> nearest to \<open>v\<close>.
\<close>

lemma gram_apply:
  fixes f :: "nat \<Rightarrow> nat \<Rightarrow> real"
  assumes orth: "\<And>j j'. j < n \<Longrightarrow> j' < n \<Longrightarrow>
      (\<Sum>i<m. f i j * f i j') = (if j = j' then 1 else 0)"
    and j: "j < n"
  shows "(\<Sum>i<m. f i j * (\<Sum>j'<n. f i j' * w j')) = w j"
proof -
  have "(\<Sum>i<m. f i j * (\<Sum>j'<n. f i j' * w j')) = (\<Sum>i<m. \<Sum>j'<n. f i j * f i j' * w j')"
    by (simp add: sum_distrib_left mult.assoc)
  also have "\<dots> = (\<Sum>j'<n. \<Sum>i<m. f i j * f i j' * w j')"
    by (rule sum.swap)
  also have "\<dots> = (\<Sum>j'<n. (\<Sum>i<m. f i j * f i j') * w j')"
    by (simp add: sum_distrib_right)
  also have "\<dots> = (\<Sum>j'<n. (if j = j' then 1 else 0) * w j')"
    by (rule sum.cong) (simp_all add: orth j)
  also have "\<dots> = (\<Sum>j'<n. if j = j' then w j' else 0)"
    by (rule sum.cong) simp_all
  also have "\<dots> = w j"
    using j by simp
  finally show ?thesis .
qed

lemma projection_shortest:
  fixes f :: "nat \<Rightarrow> nat \<Rightarrow> real"
  assumes orth: "\<And>j j'. j < n \<Longrightarrow> j' < n \<Longrightarrow>
      (\<Sum>i<m. f i j * f i j') = (if j = j' then 1 else 0)"
    and w: "\<And>j. w j = (\<Sum>i<m. f i j * v i)"
    and p: "\<And>i. p i = (\<Sum>j<n. f i j * w j)"
    and u: "\<And>i. u i = (\<Sum>j<n. f i j * x j)"
  shows "(\<Sum>i<m. (p i - v i)\<^sup>2) \<le> (\<Sum>i<m. (u i - v i)\<^sup>2)"
proof -
  define q where "q i = (\<Sum>j<n. f i j * (x j - w j))" for i
  have uq: "u i - v i = q i + (p i - v i)" for i
    by (simp add: q_def u p right_diff_distrib sum_subtractf)
  have adj0: "(\<Sum>i<m. f i j * (p i - v i)) = 0" if "j < n" for j
  proof -
    have "(\<Sum>i<m. f i j * (p i - v i)) = (\<Sum>i<m. f i j * p i) - (\<Sum>i<m. f i j * v i)"
      by (simp add: right_diff_distrib sum_subtractf)
    also have "(\<Sum>i<m. f i j * p i) = w j"
      unfolding p by (rule gram_apply [where n = n]) (simp_all add: orth that)
    finally show ?thesis by (simp add: w)
  qed
  have "(\<Sum>i<m. q i * (p i - v i)) = (\<Sum>i<m. \<Sum>j<n. (x j - w j) * (f i j * (p i - v i)))"
    unfolding q_def sum_distrib_right by (simp add: mult_ac)
  also have "\<dots> = (\<Sum>j<n. \<Sum>i<m. (x j - w j) * (f i j * (p i - v i)))"
    by (rule sum.swap)
  also have "\<dots> = (\<Sum>j<n. (x j - w j) * (\<Sum>i<m. f i j * (p i - v i)))"
    by (simp add: sum_distrib_left)
  also have "\<dots> = 0"
    by (rule sum.neutral) (simp add: adj0)
  finally have cross: "(\<Sum>i<m. q i * (p i - v i)) = 0" .
  have "(\<Sum>i<m. (u i - v i)\<^sup>2) = (\<Sum>i<m. (q i)\<^sup>2 + 2 * (q i * (p i - v i)) + (p i - v i)\<^sup>2)"
    by (rule sum.cong) (simp_all add: uq power2_sum)
  also have "\<dots> = (\<Sum>i<m. (q i)\<^sup>2) + 2 * (\<Sum>i<m. q i * (p i - v i)) + (\<Sum>i<m. (p i - v i)\<^sup>2)"
    by (simp add: sum.distrib sum_distrib_left)
  also have "\<dots> = (\<Sum>i<m. (q i)\<^sup>2) + (\<Sum>i<m. (p i - v i)\<^sup>2)"
    by (simp add: cross)
  finally have "(\<Sum>i<m. (u i - v i)\<^sup>2) = (\<Sum>i<m. (q i)\<^sup>2) + (\<Sum>i<m. (p i - v i)\<^sup>2)" .
  moreover have "0 \<le> (\<Sum>i<m. (q i)\<^sup>2)"
    by (rule sum_nonneg) simp
  ultimately show ?thesis by simp
qed

lemma residual_step:
  fixes f :: "nat \<Rightarrow> nat \<Rightarrow> real"
  assumes orth: "\<And>j j'. j < n \<Longrightarrow> j' < n \<Longrightarrow>
      (\<Sum>i<m. f i j * f i j') = (if j = j' then 1 else 0)"
    and bpos: "\<And>i. i < m \<Longrightarrow> 0 \<le> b i"
    and u: "\<And>i. u i = (\<Sum>j<n. f i j * x j)"
    and v: "\<And>i. v i = b i * (if u i < 0 then - 1 else 1)"
    and w: "\<And>j. w j = (\<Sum>i<m. f i j * v i)"
    and u': "\<And>i. u' i = (\<Sum>j<n. f i j * (- w j))"
  shows "(\<Sum>i<m. (\<bar>u' i\<bar> - b i)\<^sup>2) \<le> (\<Sum>i<m. (\<bar>u i\<bar> - b i)\<^sup>2)"
proof -
  define p where "p i = (\<Sum>j<n. f i j * w j)" for i
  have u'p: "u' i = - p i" for i
    by (simp add: u' p_def sum_negf)
  have "(\<Sum>i<m. (\<bar>u' i\<bar> - b i)\<^sup>2) \<le> (\<Sum>i<m. (p i - v i)\<^sup>2)"
  proof (rule sum_mono)
    fix i assume "i \<in> {..<m}"
    then have bi: "0 \<le> b i" using bpos by simp
    then have "\<bar>v i\<bar> = b i" by (simp add: v)
    then have "\<bar>\<bar>u' i\<bar> - b i\<bar> \<le> \<bar>p i - v i\<bar>"
      using abs_triangle_ineq3 [of "p i" "v i"] by (simp add: u'p)
    then show "(\<bar>u' i\<bar> - b i)\<^sup>2 \<le> (p i - v i)\<^sup>2"
      by (simp only: abs_le_square_iff)
  qed
  also have "\<dots> \<le> (\<Sum>i<m. (u i - v i)\<^sup>2)"
    by (rule projection_shortest [where f = f and w = w and x = x and n = n])
      (simp_all add: orth w u p_def)
  also have "\<dots> = (\<Sum>i<m. (\<bar>u i\<bar> - b i)\<^sup>2)"
  proof (rule sum.cong)
    fix i
    show "(u i - v i)\<^sup>2 = (\<bar>u i\<bar> - b i)\<^sup>2"
    proof (cases "u i < 0")
      case True
      then have "u i - v i = - (\<bar>u i\<bar> - b i)" by (simp add: v)
      then show ?thesis by (simp only: power2_minus)
    next
      case False
      then have "u i - v i = \<bar>u i\<bar> - b i" by (simp add: v)
      then show ?thesis by simp
    qed
  qed simp
  finally show ?thesis .
qed

lemma map2_upt:
  "length b = m \<Longrightarrow> map2 f b (map g [0..<m]) = map (\<lambda>i. f (b ! i) (g i)) [0..<m]"
  by (rule nth_equalityI) simp_all

lemma map2_upt_left:
  "length b = m \<Longrightarrow> map2 f (map g [0..<m]) b = map (\<lambda>i. f (g i) (b ! i)) [0..<m]"
  by (rule nth_equalityI) simp_all

lemma sum_list_upt: "(\<Sum>i\<leftarrow>[0..<m]. h i) = (\<Sum>i<m. h i)" for h :: "nat \<Rightarrow> real"
  by (simp add: interv_sum_list_conv_sum_set_nat lessThan_atLeast0)

lemma exp_angle: "exp (\<i> * complex_of_real (angle t)) = complex_of_real (if t < 0 then - 1 else 1)"
  by (simp add: angle_def exp_pi_i')

lemma gs_iter_real:
  assumes "length x = shape1 F" and "length b = shape0 F"
  shows "gs_iter b F x =
     Inr (map (\<lambda>j. - (\<Sum>i<shape0 F. entry F i j *
            (b ! i * (if (\<Sum>j<shape1 F. entry F i j * x ! j) < 0 then - 1 else 1))))
          [0..<shape1 F])"
proof -
  let ?u = "\<lambda>i. \<Sum>j<shape1 F. entry F i j * x ! j"
  let ?s = "\<lambda>i. if ?u i < 0 then - 1 else (1::real)"
  have X: "matvec F x = Inr (map ?u [0..<shape0 F])"
    using assms(1) by (simp add: matvec_def)
  have Y: "broadcast2 (\<lambda>bk e. complex_of_real bk * e) b
              (map (\<lambda>t. exp (\<i> * complex_of_real (angle t))) (map ?u [0..<shape0 F])) =
           Inr (map (\<lambda>i. complex_of_real (b ! i * ?s i)) [0..<shape0 F])"
    using assms(2) by (simp add: broadcast2_def map2_upt exp_angle)
  have y: "matvec (transpose_arr F) (map (\<lambda>i. complex_of_real (b ! i * ?s i)) [0..<shape0 F]) =
           Inr (map (\<lambda>j. complex_of_real (\<Sum>i<shape0 F. entry F i j * (b ! i * ?s i)))
                  [0..<shape1 F])"
    by (simp add: matvec_def transpose_arr_def scaleR_conv_of_real)
  show ?thesis
    unfolding gs_iter_negated gs_negated_iter_def X Y y bindR_Inr
    by (simp add: o_def)
qed

lemma err_real:
  fixes x :: "real list"
  assumes "length x = shape1 F" and "length b = shape0 F"
  shows "err F b x =
     Inr (sqrt (\<Sum>i<shape0 F. (\<bar>\<Sum>j<shape1 F. entry F i j * x ! j\<bar> - b ! i)\<^sup>2))"
  using assms
  by (simp add: err_def matvec_def broadcast2_def map2_upt_left norm2_def o_def sum_list_upt)

lemma measure_abs_Inr:
  fixes x :: "real list"
  assumes "measure_abs F x = Inr b"
  shows "length b = shape0 F \<and> (\<forall>i<shape0 F. 0 \<le> b ! i)"
  using assms by (auto simp: measure_abs_def matvec_def split: if_splits)

lemma gs_iter_residual:
  assumes orth: "orthonormal_cols F"
    and lb: "length b = shape0 F" and bpos: "\<forall>i<shape0 F. 0 \<le> b ! i"
    and lx: "length xk = shape1 F"
  shows "\<exists>xk1 rk rk1. gs_iter b F xk = Inr xk1 \<and> err F b xk = Inr rk \<and>
           err F b xk1 = Inr rk1 \<and> rk1 \<le> rk"
proof -
  define m n f where "m = shape0 F" and "n = shape1 F" and "f = entry F"
  define u where "u i = (\<Sum>j<n. f i j * xk ! j)" for i
  define v where "v i = b ! i * (if u i < 0 then - 1 else 1)" for i
  define w where "w j = (\<Sum>i<m. f i j * v i)" for j
  define x1 where "x1 = map (\<lambda>j. - w j) [0..<n]"
  define u' where "u' i = (\<Sum>j<n. f i j * x1 ! j)" for i
  have step: "gs_iter b F xk = Inr x1"
    unfolding x1_def w_def v_def u_def m_def n_def f_def
    by (rule gs_iter_real [OF lx lb])
  have l1: "length x1 = shape1 F"
    by (simp add: x1_def n_def)
  have u'w: "u' i = (\<Sum>j<n. f i j * (- w j))" for i
    unfolding u'_def by (rule sum.cong) (simp_all add: x1_def)
  have o: "(\<Sum>i<m. f i j * f i j') = (if j = j' then 1 else 0)" if "j < n" "j' < n" for j j'
    using orth that by (simp add: orthonormal_cols_def m_def n_def f_def)
  have bp: "0 \<le> b ! i" if "i < m" for i
    using bpos that by (simp add: m_def)
  have "(\<Sum>i<m. (\<bar>u' i\<bar> - b ! i)\<^sup>2) \<le> (\<Sum>i<m. (\<bar>u i\<bar> - b ! i)\<^sup>2)"
    using o bp u_def v_def w_def u'w
    by (rule residual_step [where f = f and n = n and m = m and w = w and v = v and u = u
          and u' = u' and b = "(!) b" and x = "(!) xk"])
  then have le: "sqrt (\<Sum>i<m. (\<bar>u' i\<bar> - b ! i)\<^sup>2) \<le> sqrt (\<Sum>i<m. (\<bar>u i\<bar> - b ! i)\<^sup>2)"
    by (rule real_sqrt_le_mono)
  have e0: "err F b xk = Inr (sqrt (\<Sum>i<m. (\<bar>u i\<bar> - b ! i)\<^sup>2))"
    unfolding u_def m_def n_def f_def by (rule err_real [OF lx lb])
  have e1: "err F b x1 = Inr (sqrt (\<Sum>i<m. (\<bar>u' i\<bar> - b ! i)\<^sup>2))"
    unfolding u'_def m_def n_def f_def by (rule err_real [OF l1 lb])
  from step e0 e1 le show ?thesis by blast
qed

text \<open>
  C9. With \<open>F\<close> having orthonormal columns and \<open>b = |F x|\<close> for a real \<open>x\<close>, the
  magnitude-fit residual \<open>\<parallel>|F x\<^sub>i| - b\<parallel>\<close> of the iterates of \<open>gs_phaseless\<close> does not
  increase: the iterates after \<open>k\<close> and after \<open>k + 1\<close> passes both exist, and the residual
  of the second is at most the residual of the first (exact arithmetic).
\<close>

theorem residual_non_increasing:
  fixes x :: "real list"
  assumes "orthonormal_cols F" and "measure_abs F x = Inr b"
  shows "\<exists>xk xk1 rk rk1.
           gs_phaseless np entropy b F k seed = Inr xk \<and>
           gs_phaseless np entropy b F (Suc k) seed = Inr xk1 \<and>
           err F b xk = Inr rk \<and> err F b xk1 = Inr rk1 \<and> rk1 \<le> rk"
proof -
  from measure_abs_Inr [OF assms(2)]
  have lb: "length b = shape0 F" and bpos: "\<forall>i<shape0 F. 0 \<le> b ! i" by simp_all
  from gs_phaseless_total [OF lb] obtain xk
    where xk: "gs_phaseless np entropy b F k seed = Inr xk" "length xk = shape1 F" by blast
  from gs_iter_residual [OF assms(1) lb bpos xk(2)] obtain xk1 rk rk1
    where "gs_iter b F xk = Inr xk1" "err F b xk = Inr rk" "err F b xk1 = Inr rk1" "rk1 \<le> rk"
    by blast
  then show ?thesis
    using xk(1) by (simp add: gs_phaseless_Suc)
qed

lemma frame345_orthonormal: "orthonormal_cols (of_rows 1 [[3/5], [4/5]])"
  by (simp add: orthonormal_cols_def of_rows_def lt1 lt2)

lemma frame345_measure: "measure_abs (of_rows 1 [[3/5], [4/5]]) [2 :: real] = Inr [6/5, 8/5]"
  by (simp add: measure_abs_def matvec_def of_rows_def upt2 lt1)

theorem residual_non_increasing_witness:
  "orthonormal_cols (of_rows 1 [[3/5], [4/5]]) \<and>
   measure_abs (of_rows 1 [[3/5], [4/5]]) [2 :: real] = Inr [6/5, 8/5] \<and>
   (\<exists>xk xk1 rk rk1.
      gs_phaseless lcg_np 0 [6/5, 8/5] (of_rows 1 [[3/5], [4/5]]) 7 (Some 1) = Inr xk \<and>
      gs_phaseless lcg_np 0 [6/5, 8/5] (of_rows 1 [[3/5], [4/5]]) (Suc 7) (Some 1) = Inr xk1 \<and>
      err (of_rows 1 [[3/5], [4/5]]) [6/5, 8/5] xk = Inr rk \<and>
      err (of_rows 1 [[3/5], [4/5]]) [6/5, 8/5] xk1 = Inr rk1 \<and> rk1 \<le> rk)"
  using residual_non_increasing [OF frame345_orthonormal frame345_measure, of lcg_np 0 7 "Some 1"]
    frame345_orthonormal frame345_measure
  by blast

end
